theory Spec2Isabelle
  imports Main "HOL-Library.AList"
begin

section \<open>JavaScript strings\<close>

text \<open>
  A JavaScript string is a sequence of UTF-16 code units; \<open>length\<close>, \<open>substring\<close>,
  \<open>substr\<close> and \<open>split\<close> count code units. A code unit is modelled by its number.
  \<open>lit\<close> turns an ASCII literal of the source into such a string.
\<close>

type_synonym code_unit = nat
type_synonym jsstring = "code_unit list"

definition lit :: "string \<Rightarrow> jsstring" where
  "lit s = map of_char s"

text \<open>
  \<open>String.prototype.trim\<close> removes the WhiteSpace and LineTerminator code points of
  ECMA-262 from both ends: TAB, LF, VT, FF, CR, SP, NBSP, U+1680, U+2000..U+200A, U+2028,
  U+2029, U+202F, U+205F, U+3000 and U+FEFF.
\<close>

definition is_ws :: "code_unit \<Rightarrow> bool" where
  "is_ws c \<longleftrightarrow>
     c = 9 \<or> c = 10 \<or> c = 11 \<or> c = 12 \<or> c = 13 \<or> c = 32 \<or> c = 160 \<or> c = 5760 \<or>
     (8192 \<le> c \<and> c \<le> 8202) \<or> c = 8232 \<or> c = 8233 \<or> c = 8239 \<or> c = 8287 \<or>
     c = 12288 \<or> c = 65279"

definition trim :: "jsstring \<Rightarrow> jsstring" where
  "trim s = rev (dropWhile is_ws (rev (dropWhile is_ws s)))"

text \<open>
  \<open>s.split('\n')\<close>: the pieces between line feeds (code unit 10). The result is never
  empty (the empty string splits into one empty piece), so the last case of the second
  equation does not occur.
\<close>

fun split_nl :: "jsstring \<Rightarrow> jsstring list" where
  "split_nl [] = [[]]"
| "split_nl (c # cs) =
     (if c = 10 then [] # split_nl cs
      else (case split_nl cs of line # lines \<Rightarrow> (c # line) # lines | [] \<Rightarrow> [[c]]))"

section \<open>Title generation (src/utils/noteUtils.ts)\<close>

text \<open>
  \<open>line.length > 50 ? line.substring(0, 50) + '...' : line\<close>, the expression that both
  return sites of \<open>generateTitleFromContent\<close> apply to the trimmed line.
\<close>

definition limit_title :: "jsstring \<Rightarrow> jsstring" where
  "limit_title line = (if length line > 50 then take 50 line @ lit ''...'' else line)"

text \<open>
  The \<open>for (const line of lines)\<close> loop of \<open>generateTitleFromContent\<close>: it returns from
  the function at the first line whose trimmed form is truthy (non-empty); \<open>None\<close> when
  the loop runs to its end.
\<close>

fun first_nonempty_line :: "jsstring list \<Rightarrow> jsstring option" where
  "first_nonempty_line [] = None"
| "first_nonempty_line (line # lines) =
     (let trimmedLine = trim line in
      if trimmedLine \<noteq> [] then Some (limit_title trimmedLine)
      else first_nonempty_line lines)"

definition generateTitleFromContent :: "jsstring \<Rightarrow> jsstring" where
  "generateTitleFromContent content =
     (if content = [] \<or> trim content = [] then lit ''New note''
      else
        let firstLine = trim (hd (split_nl (trim content))) in
        if firstLine = [] then
          (case first_nonempty_line (split_nl (trim content)) of
             Some t \<Rightarrow> t
           | None \<Rightarrow> lit ''New note'')
        else limit_title firstLine)"

text \<open>
  The algorithm in the words of the specification: if the trimmed content is empty the
  title is the fixed default; otherwise it is the first line of the content that is
  non-empty after trimming, cut to 50 code units with an ellipsis marker when it is
  longer; with no such line the title is the default.
\<close>

definition spec_title :: "jsstring \<Rightarrow> jsstring" where
  "spec_title content =
     (if trim content = [] then lit ''New note''
      else
        (case find (\<lambda>line. trim line \<noteq> []) (split_nl content) of
           None \<Rightarrow> lit ''New note''
         | Some line \<Rightarrow>
             (if length (trim line) > 50 then take 50 (trim line) @ lit ''...''
              else trim line)))"

text \<open>The first line that is non-empty after trimming, in its trimmed form.\<close>

definition title_line :: "jsstring list \<Rightarrow> jsstring option" where
  "title_line ls = map_option trim (find (\<lambda>l. trim l \<noteq> []) ls)"

section \<open>Dates and the local time zone\<close>

text \<open>
  A \<open>Date\<close> object holds a time value: an integral number of milliseconds since the
  epoch, at most 8.64e15 in magnitude, or NaN (an invalid date).
\<close>

datatype date = Time int | Invalid_Date

definition msPerDay :: int where
  "msPerDay = 1000 * 60 * 60 * 24"

definition TimeClip :: "int \<Rightarrow> date" where
  "TimeClip t = (if \<bar>t\<bar> \<le> 8640000000000000 then Time t else Invalid_Date)"

text \<open>
  The local time zone is the implementation-defined function \<open>LocalTZA(t, isUTC)\<close> of
  ECMA-262: the offset in milliseconds of local time from UTC, asked at a UTC time value
  (\<open>LocalTZA_utc\<close>) or at a local time value (\<open>LocalTZA_local\<close>).
\<close>

record timezone =
  LocalTZA_utc :: "int \<Rightarrow> int"
  LocalTZA_local :: "int \<Rightarrow> int"

definition LocalTime :: "timezone \<Rightarrow> int \<Rightarrow> int" where
  "LocalTime tz t = t + LocalTZA_utc tz t"

definition UTC :: "timezone \<Rightarrow> int \<Rightarrow> int" where
  "UTC tz t = t - LocalTZA_local tz t"

text \<open>The number of the calendar day that holds a (local) time value.\<close>

definition Day :: "int \<Rightarrow> int" where
  "Day t = t div msPerDay"

text \<open>
  \<open>new Date(d.getFullYear(), d.getMonth(), d.getDate())\<close> for a date \<open>d\<close>: the three
  getters read year, month and day of the month of the local time of \<open>d\<close>, which name
  the local calendar day \<open>Day (LocalTime tz t)\<close>; the constructor gives local midnight of
  that day, converted to UTC and clipped. (The constructor adds 1900 to a year in 0..99;
  dates of the first century are outside this model.)
\<close>

fun date_only :: "timezone \<Rightarrow> date \<Rightarrow> date" where
  "date_only tz Invalid_Date = Invalid_Date"
| "date_only tz (Time t) = TimeClip (UTC tz (Day (LocalTime tz t) * msPerDay))"

text \<open>\<open>Math.ceil(a / b)\<close> for integers \<open>a\<close> and \<open>b > 0\<close>.\<close>

definition ceil_div :: "int \<Rightarrow> int \<Rightarrow> int" where
  "ceil_div a b = - ((- a) div b)"

section \<open>Date categories (src/utils/noteUtils.ts)\<close>

datatype DateCategory = Today | Yesterday | This_week | This_month | Older

text \<open>
  \<open>getDateCategory\<close> reads the clock (\<open>new Date()\<close>, here the argument \<open>now\<close>) and the
  local time zone. A NaN difference fails every comparison and ends in \<open>'Older'\<close>; a
  quotient in (-1, 0) rounds up to -0, which \<open>=== 0\<close>.
\<close>

definition getDateCategory :: "timezone \<Rightarrow> int \<Rightarrow> date \<Rightarrow> DateCategory" where
  "getDateCategory tz now date =
     (let noteDate = date;
          today = date_only tz (Time now);
          noteDateOnly = date_only tz noteDate
      in case (today, noteDateOnly) of
           (Time today_ms, Time note_ms) \<Rightarrow>
             (let diffTime = today_ms - note_ms;
                  diffDays = ceil_div diffTime (1000 * 60 * 60 * 24)
              in if diffDays = 0 then Today
                 else if diffDays = 1 then Yesterday
                 else if diffDays \<le> 7 then This_week
                 else if diffDays \<le> 30 then This_month
                 else Older)
         | _ \<Rightarrow> Older)"

text \<open>
  The specification's measure: the difference in whole calendar days between today's
  local date and the local date of the note.
\<close>

definition calendar_diffDays :: "timezone \<Rightarrow> int \<Rightarrow> int \<Rightarrow> int" where
  "calendar_diffDays tz now t = Day (LocalTime tz now) - Day (LocalTime tz t)"

text \<open>A zone whose offset from UTC never changes.\<close>

definition fixed_zone :: "int \<Rightarrow> timezone" where
  "fixed_zone off = \<lparr>LocalTZA_utc = (\<lambda>t. off), LocalTZA_local = (\<lambda>t. off)\<rparr>"

text \<open>
  US Eastern time around the winter of 2025/26: UTC-4 until 2025-11-02T06:00Z, when the
  clocks go back from 02:00 to 01:00 local time, UTC-5 until 2026-03-08T07:00Z, when
  they go forward from 02:00 to 03:00, and UTC-4 again. A local time that the change
  repeats or skips is read with the offset before the change.
\<close>

definition us_eastern :: timezone where
  "us_eastern =
     \<lparr>LocalTZA_utc = (\<lambda>t. if t < 1762063200000 then - 14400000
                         else if t < 1772953200000 then - 18000000 else - 14400000),
      LocalTZA_local = (\<lambda>t. if t < 1762048800000 then - 14400000
                           else if t < 1772938800000 then - 18000000 else - 14400000)\<rparr>"


section \<open>Notes (types, src/utils/noteUtils.ts)\<close>

text \<open>
  \<open>interface Note\<close> and \<open>interface NoteInput\<close>; the field \<open>id\<close> is \<open>note_id\<close> here, and
  the fields of the input carry a suffix. \<open>Partial<NoteInput>\<close> has each field optional
  (\<open>None\<close>: the key is absent).
\<close>

record Note =
  note_id :: jsstring
  title :: jsstring
  content :: jsstring
  createdAt :: date
  updatedAt :: date

record NoteInput =
  title_in :: jsstring
  content_in :: jsstring

record PartialNoteInput =
  title_upd :: "jsstring option"
  content_upd :: "jsstring option"

text \<open>\<open>a || b\<close> on strings: \<open>a\<close> unless it is the empty string.\<close>

definition or_else :: "jsstring \<Rightarrow> jsstring \<Rightarrow> jsstring" where
  "or_else a b = (if a \<noteq> [] then a else b)"

text \<open>\<open>n.toString()\<close> for an integer: decimal digits, with a minus sign when negative.\<close>

fun digits :: "nat \<Rightarrow> jsstring" where
  "digits n = (if n < 10 then [48 + n] else digits (n div 10) @ [48 + n mod 10])"

declare digits.simps [simp del]

definition toString_int :: "int \<Rightarrow> jsstring" where
  "toString_int i = (if i < 0 then 45 # digits (nat (- i)) else digits (nat i))"

text \<open>\<open>s.substr(start, length)\<close> for non-negative arguments.\<close>

definition substr :: "jsstring \<Rightarrow> nat \<Rightarrow> nat \<Rightarrow> jsstring" where
  "substr s start len = take len (drop start s)"

text \<open>
  What one call of \<open>createNote\<close> or \<open>updateNote\<close> reads from outside: the clock at
  \<open>new Date()\<close>, the clock at \<open>Date.now()\<close> inside \<open>generateId\<close>, and the string
  \<open>Math.random().toString(36)\<close> (\<open>0.\<close> followed by base-36 digits, or \<open>0\<close>).
\<close>

record env =
  new_Date :: int
  Date_now :: int
  Math_random_36 :: jsstring

definition generateId :: "env \<Rightarrow> jsstring" where
  "generateId e = toString_int (Date_now e) @ substr (Math_random_36 e) 2 9"

definition createNote :: "env \<Rightarrow> NoteInput \<Rightarrow> Note" where
  "createNote e noteInput =
     (let now = Time (new_Date e);
          title = or_else (trim (title_in noteInput))
                    (generateTitleFromContent (or_else (content_in noteInput) []))
      in \<lparr>note_id = generateId e,
          title = title,
          content = or_else (content_in noteInput) [],
          createdAt = now,
          updatedAt = now\<rparr>)"

definition updateNote :: "env \<Rightarrow> Note \<Rightarrow> PartialNoteInput \<Rightarrow> Note" where
  "updateNote e existingNote updates =
     (let title0 = (case title_upd updates of Some t \<Rightarrow> t | None \<Rightarrow> title existingNote);
          content0 = (case content_upd updates of Some c \<Rightarrow> c
                      | None \<Rightarrow> content existingNote);
          title1 = (if title0 = [] \<or> trim title0 = []
                    then generateTitleFromContent (or_else content0 []) else title0)
      in existingNote
           \<lparr>content := content0, title := title1, updatedAt := Time (new_Date e)\<rparr>)"

section \<open>JSON values and the storage\<close>

text \<open>The values that \<open>JSON.parse\<close> returns (numbers: the integral ones).\<close>

datatype json =
  JNull | JBool bool | JNum int | JStr jsstring | JArr "json list"
  | JObj "(jsstring \<times> json) list"

text \<open>
  A stored string, as \<open>loadNotesFromStorage\<close> reads it: the empty string (falsy), a
  text that \<open>JSON.parse\<close> rejects with a SyntaxError, or a JSON text, which stands for the
  value it parses to. \<open>JSON.stringify\<close> of a value is a text that parses to that value.
\<close>

datatype stored_text = Empty_text | Malformed_text | JSON_text json

text \<open>
  AsyncStorage with the keys of this program: \<open>savemymind_notes\<close>,
  \<open>whisper_model_downloaded\<close> and \<open>whisper_model_version\<close>; \<open>None\<close> is an absent key
  (\<open>getItem\<close> gives \<open>null\<close>).
\<close>

record AsyncStorage =
  savemymind_notes :: "stored_text option"
  whisper_model_downloaded :: "jsstring option"
  whisper_model_version :: "jsstring option"

text \<open>A thrown value: an \<open>Error\<close> with its message, or a value that is no \<open>Error\<close>.\<close>

datatype js_error = Error jsstring | Thrown_value

fun message_of :: "js_error \<Rightarrow> jsstring" where
  "message_of (Error m) = m"
| "message_of Thrown_value = lit ''Unknown error''"

text \<open>
  The parts of the JavaScript runtime that the codec leaves to the platform:
  \<open>Date.prototype.toISOString\<close> of a valid time value, \<open>Date.parse\<close> of a string, and
  the string that an array or object converts to.
\<close>

record runtime =
  toISOString :: "int \<Rightarrow> jsstring"
  Date_parse :: "jsstring \<Rightarrow> date"
  ToString :: "json \<Rightarrow> jsstring"

text \<open>
  ECMA-262 requires \<open>Date.parse(d.toISOString())\<close> to be the time value of \<open>d\<close> for
  every valid date \<open>d\<close>.
\<close>

definition iso_roundtrip :: "runtime \<Rightarrow> bool" where
  "iso_roundtrip rt \<longleftrightarrow>
     (\<forall>t. \<bar>t\<bar> \<le> 8640000000000000 \<longrightarrow> Date_parse rt (toISOString rt t) = Time t)"

text \<open>\<open>Date.prototype.toJSON\<close>: the ISO string, or \<open>null\<close> for an invalid date.\<close>

fun date_toJSON :: "runtime \<Rightarrow> date \<Rightarrow> json" where
  "date_toJSON rt (Time t) = JStr (toISOString rt t)"
| "date_toJSON rt Invalid_Date = JNull"

text \<open>
  \<open>new Date(v)\<close> for \<open>v\<close> a parsed JSON value or \<open>undefined\<close> (\<open>None\<close>): a string is
  parsed, a number is a time value, \<open>null\<close> and \<open>false\<close> are 0, \<open>true\<close> is 1, an array or
  object goes through its string.
\<close>

fun new_Date_of :: "runtime \<Rightarrow> json option \<Rightarrow> date" where
  "new_Date_of rt None = Invalid_Date"
| "new_Date_of rt (Some JNull) = Time 0"
| "new_Date_of rt (Some (JBool b)) = Time (if b then 1 else 0)"
| "new_Date_of rt (Some (JNum n)) = TimeClip n"
| "new_Date_of rt (Some (JStr s)) = Date_parse rt s"
| "new_Date_of rt (Some v) = Date_parse rt (ToString rt v)"

text \<open>
  A note as an object at run time: its own properties in order, each a JSON value or a
  \<open>Date\<close>.
\<close>

datatype jsval = J json | D date

type_synonym obj = "(jsstring \<times> jsval) list"

definition obj_of_Note :: "Note \<Rightarrow> obj" where
  "obj_of_Note n =
     [(lit ''id'', J (JStr (note_id n))),
      (lit ''title'', J (JStr (title n))),
      (lit ''content'', J (JStr (content n))),
      (lit ''createdAt'', D (createdAt n)),
      (lit ''updatedAt'', D (updatedAt n))]"

text \<open>\<open>JSON.stringify\<close> of a note, then of the array of notes, as the value written.\<close>

definition Note_toJSON :: "runtime \<Rightarrow> Note \<Rightarrow> json" where
  "Note_toJSON rt n =
     JObj [(lit ''id'', JStr (note_id n)),
           (lit ''title'', JStr (title n)),
           (lit ''content'', JStr (content n)),
           (lit ''createdAt'', date_toJSON rt (createdAt n)),
           (lit ''updatedAt'', date_toJSON rt (updatedAt n))]"

definition JSON_stringify :: "runtime \<Rightarrow> Note list \<Rightarrow> stored_text" where
  "JSON_stringify rt notes = JSON_text (JArr (map (Note_toJSON rt) notes))"

fun JSON_parse :: "stored_text \<Rightarrow> js_error + json" where
  "JSON_parse (JSON_text v) = Inr v"
| "JSON_parse Malformed_text = Inl (Error (lit ''SyntaxError''))"
| "JSON_parse Empty_text = Inl (Error (lit ''SyntaxError''))"

text \<open>
  The own enumerable properties that \<open>{...note}\<close> copies: those of an object, the
  indexed elements of an array, the indexed code units of a string, none of \<open>null\<close>, a
  number or a boolean.
\<close>

fun spread :: "json \<Rightarrow> (jsstring \<times> json) list" where
  "spread (JObj ps) = ps"
| "spread (JArr xs) = zip (map digits [0..<length xs]) xs"
| "spread (JStr s) = zip (map digits [0..<length s]) (map (\<lambda>c. JStr [c]) s)"
| "spread v = []"

text \<open>
  \<open>note.createdAt\<close> and \<open>note.updatedAt\<close>: a TypeError on \<open>null\<close>, the property of an
  object, \<open>undefined\<close> on any other value.
\<close>

fun get_prop :: "json \<Rightarrow> jsstring \<Rightarrow> js_error + json option" where
  "get_prop JNull k = Inl (Error (lit ''TypeError''))"
| "get_prop (JObj ps) k = Inr (map_of ps k)"
| "get_prop v k = Inr None"

text \<open>One call of the arrow function that \<open>loadNotesFromStorage\<close> maps over the array.\<close>

definition revive_note :: "runtime \<Rightarrow> json \<Rightarrow> js_error + obj" where
  "revive_note rt note =
     (case get_prop note (lit ''createdAt'') of
        Inl err \<Rightarrow> Inl err
      | Inr c \<Rightarrow>
          (case get_prop note (lit ''updatedAt'') of
             Inl err \<Rightarrow> Inl err
           | Inr u \<Rightarrow>
               Inr (AList.update (lit ''updatedAt'') (D (new_Date_of rt u))
                     (AList.update (lit ''createdAt'') (D (new_Date_of rt c))
                       (map (\<lambda>(k, v). (k, J v)) (spread note))))))"

text \<open>\<open>Array.prototype.map\<close> with a callback that may throw: the first throw ends it.\<close>

fun map_throwing :: "('a \<Rightarrow> js_error + 'b) \<Rightarrow> 'a list \<Rightarrow> js_error + 'b list" where
  "map_throwing f [] = Inr []"
| "map_throwing f (x # xs) =
     (case f x of
        Inl err \<Rightarrow> Inl err
      | Inr y \<Rightarrow> (case map_throwing f xs of Inl err \<Rightarrow> Inl err | Inr ys \<Rightarrow> Inr (y # ys)))"

text \<open>
  How the storage answers one call of a function of this program: each request
  resolves (\<open>None\<close>) or rejects with an error.
\<close>

record io =
  getItem_rejects :: "js_error option"
  setItem_rejects :: "js_error option"

definition saveNotesToStorage ::
  "runtime \<Rightarrow> io \<Rightarrow> AsyncStorage \<Rightarrow> Note list \<Rightarrow> (js_error + unit) \<times> AsyncStorage" where
  "saveNotesToStorage rt io store notes =
     (let notesJson = JSON_stringify rt notes in
      case setItem_rejects io of
        Some err \<Rightarrow> (Inl err, store)
      | None \<Rightarrow> (Inr (), store\<lparr>savemymind_notes := Some notesJson\<rparr>))"

text \<open>
  The body of the \<open>try\<close> block of \<open>loadNotesFromStorage\<close> after the read, and the
  function itself: its \<open>catch\<close> turns every error into the empty array, so it never
  rejects. It reads the storage and does not write it.
\<close>

definition parse_notes :: "runtime \<Rightarrow> stored_text option \<Rightarrow> js_error + obj list" where
  "parse_notes rt notesJson =
     (case notesJson of
        None \<Rightarrow> Inr []
      | Some Empty_text \<Rightarrow> Inr []
      | Some txt \<Rightarrow>
          (case JSON_parse txt of
             Inl err \<Rightarrow> Inl err
           | Inr (JArr xs) \<Rightarrow> map_throwing (revive_note rt) xs
           | Inr v \<Rightarrow> Inl (Error (lit ''TypeError''))))"

definition loadNotesFromStorage ::
  "runtime \<Rightarrow> io \<Rightarrow> AsyncStorage \<Rightarrow> js_error + obj list" where
  "loadNotesFromStorage rt io store =
     (case getItem_rejects io of
        Some err \<Rightarrow> Inr []
      | None \<Rightarrow>
          (case parse_notes rt (savemymind_notes store) of
             Inl err \<Rightarrow> Inr []
           | Inr notes \<Rightarrow> Inr notes))"


section \<open>The note repository (src/hooks/useNotes.ts)\<close>

text \<open>
  \<open>interface NotesState\<close>, the state of the hook. Its \<open>notes\<close> are \<open>Note\<close> records where
  the hook creates and updates them, and the objects that the load returned where it
  loads them.
\<close>

record 'n NotesState =
  "notes" :: "'n list"
  loading :: bool
  error :: "jsstring option"

text \<open>
  \<open>loadNotes\<close>: the state after its last \<open>setState\<close>, and the storage, which it only
  reads. The \<open>catch\<close> of \<open>loadNotes\<close> is the \<open>Inl\<close> branch.
\<close>

definition loadNotes ::
  "runtime \<Rightarrow> io \<Rightarrow> AsyncStorage \<Rightarrow> obj NotesState \<Rightarrow> obj NotesState \<times> AsyncStorage" where
  "loadNotes rt io store prev =
     (let st = prev\<lparr>loading := True, error := None\<rparr> in
      case loadNotesFromStorage rt io store of
        Inr loaded \<Rightarrow> (st\<lparr>notes := loaded, loading := False\<rparr>, store)
      | Inl err \<Rightarrow> (st\<lparr>loading := False, error := Some (lit ''Failed to load notes'')\<rparr>, store))"

text \<open>
  \<open>saveNotes\<close>: its \<open>catch\<close> records the failure in the state and does not rethrow, so the
  function always resolves.
\<close>

definition saveNotes ::
  "runtime \<Rightarrow> io \<Rightarrow> Note NotesState \<times> AsyncStorage \<Rightarrow> Note list \<Rightarrow>
     Note NotesState \<times> AsyncStorage" where
  "saveNotes rt io w ns =
     (case saveNotesToStorage rt io (snd w) ns of
        (Inr u, store') \<Rightarrow> ((fst w)\<lparr>notes := ns, error := None\<rparr>, store')
      | (Inl err, store') \<Rightarrow> ((fst w)\<lparr>error := Some (lit ''Failed to save notes'')\<rparr>, store'))"

text \<open>
  \<open>addNote\<close>. The input is \<open>None\<close> when it is \<open>null\<close>, \<open>undefined\<close> or no object. A
  \<open>Date\<close> object is truthy, so of the checks on the created note only the one on the id
  can fail. The result is the returned note, or the error that the \<open>catch\<close> rethrows.
  The callback reads \<open>state.notes\<close> of the render that made it: the state given here is
  that state, so a second call sees the note of the first only through the callback of
  the next render. The same holds for \<open>updateNoteById\<close>.
\<close>

definition addNote ::
  "runtime \<Rightarrow> env \<Rightarrow> io \<Rightarrow> Note NotesState \<times> AsyncStorage \<Rightarrow> NoteInput option \<Rightarrow>
     (js_error + Note) \<times> Note NotesState \<times> AsyncStorage" where
  "addNote rt e io w noteInput =
     (let throw = (\<lambda>err.
            (Inl err,
             (fst w)\<lparr>error := Some (lit ''Failed to create note: '' @ message_of err)\<rparr>,
             snd w))
      in case noteInput of
           None \<Rightarrow> throw (Error (lit ''Invalid note input''))
         | Some inp \<Rightarrow>
             (let newNote = createNote e inp in
              if note_id newNote = []
              then throw (Error (lit ''Failed to create valid note structure''))
              else
                let updatedNotes = newNote # notes (fst w) in
                (Inr newNote, saveNotes rt io w updatedNotes)))"

text \<open>\<open>Array.prototype.findIndex\<close>; \<open>None\<close> is the result -1.\<close>

fun findIndex :: "('a \<Rightarrow> bool) \<Rightarrow> 'a list \<Rightarrow> nat option" where
  "findIndex P [] = None"
| "findIndex P (x # xs) = (if P x then Some 0 else map_option Suc (findIndex P xs))"

definition updateNoteById ::
  "runtime \<Rightarrow> env \<Rightarrow> io \<Rightarrow> Note NotesState \<times> AsyncStorage \<Rightarrow> jsstring \<Rightarrow>
     PartialNoteInput \<Rightarrow> (js_error + Note) \<times> Note NotesState \<times> AsyncStorage" where
  "updateNoteById rt e io w noteId updates =
     (let throw = (\<lambda>err.
            (Inl err,
             (fst w)\<lparr>error := Some (lit ''Failed to update note: '' @ message_of err)\<rparr>,
             snd w))
      in if noteId = [] then throw (Error (lit ''Invalid note ID''))
         else
           (case findIndex (\<lambda>note. note_id note = noteId) (notes (fst w)) of
              None \<Rightarrow> throw (Error (lit ''Note not found''))
            | Some noteIndex \<Rightarrow>
                (let existingNote = notes (fst w) ! noteIndex in
                 if note_id existingNote = []
                 then throw (Error (lit ''Invalid existing note structure''))
                 else
                   let updatedNote = updateNote e existingNote updates in
                   if note_id updatedNote = [] \<or> note_id updatedNote \<noteq> noteId
                   then throw (Error (lit ''Note update resulted in invalid data''))
                   else
                     let updatedNotes = (notes (fst w))[noteIndex := updatedNote] in
                     (Inr updatedNote, saveNotes rt io w updatedNotes))))"

definition getNoteById :: "Note NotesState \<Rightarrow> jsstring \<Rightarrow> Note option" where
  "getNoteById st noteId = find (\<lambda>note. note_id note = noteId) (notes st)"

section \<open>The model download service (src/services/modelDownloadService.ts)\<close>

datatype OS = Ios | Android | Windows | Macos | Web

text \<open>
  The platform: \<open>Platform.OS\<close>, whether the module \<open>expo-file-system\<close> was loaded
  (\<open>FileSystem\<close> is not \<open>null\<close>; it is never loaded on the web), and its
  \<open>documentDirectory\<close>.
\<close>

record device =
  Platform_OS :: OS
  FileSystem :: bool
  documentDirectory :: jsstring

definition CURRENT_MODEL_VERSION :: jsstring where
  "CURRENT_MODEL_VERSION = lit ''1.0.0''"

definition getModelPath :: "device \<Rightarrow> jsstring" where
  "getModelPath dev =
     (if Platform_OS dev \<noteq> Web \<and> FileSystem dev
      then documentDirectory dev @ lit ''ggml-tiny.en.bin'' else [])"

text \<open>What persists on the device: the storage, and whether the model file exists.\<close>

record phone =
  storage :: AsyncStorage
  model_file :: bool

text \<open>Which of the requests of one call of \<open>isModelAvailable\<close> reject.\<close>

record check_io =
  getInfoAsync_rejects :: bool
  getItem_version_rejects :: bool
  deleteAsync_rejects :: bool
  removeItem_downloaded_rejects :: bool
  removeItem_version_rejects :: bool
  getItem_downloaded_rejects :: bool

definition isModelAvailable :: "device \<Rightarrow> check_io \<Rightarrow> phone \<Rightarrow> bool \<times> phone" where
  "isModelAvailable dev cio ph =
     (if Platform_OS dev = Web \<or> \<not> FileSystem dev then (False, ph)
      else if getInfoAsync_rejects cio then (False, ph)
      else if \<not> model_file ph then (False, ph)
      else if getItem_version_rejects cio then (False, ph)
      else if whisper_model_version (storage ph) \<noteq> Some CURRENT_MODEL_VERSION then
        (if deleteAsync_rejects cio then (False, ph)
         else
           let ph1 = ph\<lparr>model_file := False\<rparr> in
           if removeItem_downloaded_rejects cio then (False, ph1)
           else
             let ph2 = ph1\<lparr>storage := (storage ph1)\<lparr>whisper_model_downloaded := None\<rparr>\<rparr> in
             if removeItem_version_rejects cio then (False, ph2)
             else (False, ph2\<lparr>storage := (storage ph2)\<lparr>whisper_model_version := None\<rparr>\<rparr>))
      else if getItem_downloaded_rejects cio then (False, ph)
      else (whisper_model_downloaded (storage ph) = Some (lit ''true''), ph))"

text \<open>
  What one call of \<open>downloadModel\<close> meets: the answers to its availability check, how
  \<open>downloadAsync\<close> ends and whether it leaves a file at the model path, and which of the
  later requests reject. The progress callbacks do not change what persists.
\<close>

datatype download_outcome = Download_rejects js_error | Download_undefined | Download_result

record download_io =
  check :: check_io
  downloadAsync_outcome :: download_outcome
  file_after_download :: bool
  getInfoAsync_after_rejects :: "js_error option"
  setItem_downloaded_rejects :: "js_error option"
  setItem_version_rejects :: "js_error option"
  cleanup_deleteAsync_rejects :: bool
  cleanup_removeItem_rejects :: bool

text \<open>The \<open>catch\<close> block of \<open>downloadModel\<close>: its own failures are only logged.\<close>

definition cleanup :: "download_io \<Rightarrow> phone \<Rightarrow> phone" where
  "cleanup dio ph =
     (if cleanup_deleteAsync_rejects dio then ph
      else
        let ph1 = ph\<lparr>model_file := False\<rparr> in
        if cleanup_removeItem_rejects dio then ph1
        else ph1\<lparr>storage := (storage ph1)\<lparr>whisper_model_downloaded := None\<rparr>\<rparr>)"

definition downloadModel ::
  "device \<Rightarrow> download_io \<Rightarrow> phone \<Rightarrow> (js_error + jsstring) \<times> phone" where
  "downloadModel dev dio ph =
     (if Platform_OS dev = Web \<or> \<not> FileSystem dev
      then (Inl (Error (lit ''Model download not supported on web platform'')), ph)
      else
        let (available, ph1) = isModelAvailable dev (check dio) ph in
        if available then (Inr (getModelPath dev), ph1)
        else
          let ph2 = ph1\<lparr>model_file := file_after_download dio\<rparr>;
              throw = (\<lambda>err p. (Inl err, cleanup dio p))
          in case downloadAsync_outcome dio of
               Download_rejects err \<Rightarrow> throw err ph2
             | Download_undefined \<Rightarrow>
                 throw (Error (lit ''Download failed - no result returned'')) ph2
             | Download_result \<Rightarrow>
                 (case getInfoAsync_after_rejects dio of
                    Some err \<Rightarrow> throw err ph2
                  | None \<Rightarrow>
                      if \<not> model_file ph2
                      then throw (Error (lit ''Download completed but file not found'')) ph2
                      else
                        (case setItem_downloaded_rejects dio of
                           Some err \<Rightarrow> throw err ph2
                         | None \<Rightarrow>
                             let ph3 = ph2\<lparr>storage := (storage ph2)
                                         \<lparr>whisper_model_downloaded := Some (lit ''true'')\<rparr>\<rparr>
                             in case setItem_version_rejects dio of
                                  Some err \<Rightarrow> throw err ph3
                                | None \<Rightarrow>
                                    (Inr (getModelPath dev),
                                     ph3\<lparr>storage := (storage ph3)
                                       \<lparr>whisper_model_version :=
                                          Some CURRENT_MODEL_VERSION\<rparr>\<rparr>))))"

section \<open>The provisioning gate (src/app/index.tsx)\<close>

text \<open>
  The state that \<open>validateAndEnsureModel\<close> sets: downloading, failed with a reason,
  ready (the model is available and the application proceeds). The download progress, a
  fraction, is left out.
\<close>

record gate =
  isModelDownloading :: bool
  modelDownloadError :: "jsstring option"
  isModelReady :: bool

record gate_io =
  first_check :: check_io
  download :: download_io
  second_check :: check_io

fun gate_message :: "js_error \<Rightarrow> jsstring" where
  "gate_message (Error m) = m"
| "gate_message Thrown_value = lit ''Failed to install required voice recognition model''"

definition validateAndEnsureModel ::
  "device \<Rightarrow> gate_io \<Rightarrow> gate \<times> phone \<Rightarrow> gate \<times> phone" where
  "validateAndEnsureModel dev gio w =
     (let g = fst w; ph = snd w;
          failed = (\<lambda>err g' p.
            (g'\<lparr>isModelDownloading := False, modelDownloadError := Some (gate_message err)\<rparr>,
             p))
      in if Platform_OS dev = Web then (g\<lparr>isModelReady := True\<rparr>, ph)
         else
           let (isAvailable, ph1) = isModelAvailable dev (first_check gio) ph in
           if isAvailable then (g\<lparr>isModelReady := True\<rparr>, ph1)
           else
             let g1 = g\<lparr>isModelDownloading := True, modelDownloadError := None\<rparr> in
             (case downloadModel dev (download gio) ph1 of
                (Inl err, ph2) \<Rightarrow> failed err g1 ph2
              | (Inr path, ph2) \<Rightarrow>
                  let (isNowAvailable, ph3) = isModelAvailable dev (second_check gio) ph2 in
                  if \<not> isNowAvailable
                  then failed (Error (lit ''Model download completed but validation failed''))
                         g1 ph3
                  else (g1\<lparr>isModelDownloading := False, isModelReady := True\<rparr>, ph3)))"


section \<open>Measures and inputs used in the properties\<close>

text \<open>
  The table of the specification, read on a day difference: 0 is Today, 1 is Yesterday,
  up to 7 This week, up to 30 This month, more is Older. (The code applies it to its own
  \<open>diffDays\<close>; for a difference below 0 the third row is the first that matches.)
\<close>

definition category_of_diffDays :: "int \<Rightarrow> DateCategory" where
  "category_of_diffDays d =
     (if d = 0 then Today else if d = 1 then Yesterday else if d \<le> 7 then This_week
      else if d \<le> 30 then This_month else Older)"

text \<open>
  The zone has the same offset from UTC at local midnight of today and at local midnight
  of the day of \<open>t\<close>: no change of the clocks lies between the two.
\<close>

definition same_offset :: "timezone \<Rightarrow> int \<Rightarrow> int \<Rightarrow> bool" where
  "same_offset tz now t \<longleftrightarrow>
     LocalTZA_local tz (Day (LocalTime tz now) * msPerDay) =
     LocalTZA_local tz (Day (LocalTime tz t) * msPerDay)"

text \<open>A valid date: a time value within the range of \<open>TimeClip\<close>.\<close>

fun valid_date :: "date \<Rightarrow> bool" where
  "valid_date (Time t) \<longleftrightarrow> \<bar>t\<bar> \<le> 8640000000000000"
| "valid_date Invalid_Date \<longleftrightarrow> False"

text \<open>The number that a string of decimal digits writes, and the integer with a sign.\<close>

definition digits_value :: "jsstring \<Rightarrow> nat" where
  "digits_value s = foldl (\<lambda>a c. 10 * a + (c - 48)) 0 s"

definition parse_int :: "jsstring \<Rightarrow> int" where
  "parse_int s =
     (case s of
        [] \<Rightarrow> 0
      | c # cs \<Rightarrow> if c = 45 then - int (digits_value cs) else int (digits_value s))"

text \<open>
  A runtime for the concrete examples. It writes a time value as its decimal number of
  milliseconds (not in the ISO format) and reads it back; it satisfies \<open>iso_roundtrip\<close>.
\<close>

definition sample_runtime :: runtime where
  "sample_runtime =
     \<lparr>toISOString = toString_int,
      Date_parse = (\<lambda>s. TimeClip (parse_int s)),
      ToString = (\<lambda>v. [])\<rparr>"

definition io_ok :: io where
  "io_ok = \<lparr>getItem_rejects = None, setItem_rejects = None\<rparr>"

definition empty_storage :: AsyncStorage where
  "empty_storage =
     \<lparr>savemymind_notes = None, whisper_model_downloaded = None,
      whisper_model_version = None\<rparr>"

definition empty_state :: "Note NotesState" where
  "empty_state = \<lparr>notes = [], loading = False, error = None\<rparr>"

text \<open>
  One reading of the outside: the clock at 2025-11-03T05:01:00.000Z and one
  millisecond later, and a random number written in base 36.
\<close>

definition env1 :: env where
  "env1 = \<lparr>new_Date = 1762146060000, Date_now = 1762146060001,
           Math_random_36 = lit ''0.4fzyo82mvyr''\<rparr>"

definition input1 :: NoteInput where
  "input1 = \<lparr>title_in = [], content_in = lit ''Buy milk'' @ [10] @ lit ''and eggs''\<rparr>"

definition input2 :: NoteInput where
  "input2 = \<lparr>title_in = lit ''Second'', content_in = lit ''another note''\<rparr>"

definition note1 :: Note where
  "note1 =
     \<lparr>note_id = lit ''17621460600014fzyo82mv'', title = lit ''Buy milk'',
      content = lit ''Buy milk'' @ [10] @ lit ''and eggs'',
      createdAt = Time 1762146060000, updatedAt = Time 1762146060000\<rparr>"

definition env2 :: env where
  "env2 = \<lparr>new_Date = 1762146065000, Date_now = 1762146065000,
           Math_random_36 = lit ''0.4fzyo82mvyr''\<rparr>"

definition state1 :: "Note NotesState" where
  "state1 = \<lparr>notes = [note1], loading = False, error = None\<rparr>"

definition updates1 :: PartialNoteInput where
  "updates1 = \<lparr>title_upd = None, content_upd = Some (lit ''Buy bread'')\<rparr>"

text \<open>Inputs for the provisioning examples: no request rejects, the download succeeds.\<close>

definition no_rejects :: check_io where
  "no_rejects =
     \<lparr>getInfoAsync_rejects = False, getItem_version_rejects = False,
      deleteAsync_rejects = False, removeItem_downloaded_rejects = False,
      removeItem_version_rejects = False, getItem_downloaded_rejects = False\<rparr>"

definition download_ok :: download_io where
  "download_ok =
     \<lparr>check = no_rejects, downloadAsync_outcome = Download_result,
      file_after_download = True, getInfoAsync_after_rejects = None,
      setItem_downloaded_rejects = None, setItem_version_rejects = None,
      cleanup_deleteAsync_rejects = False, cleanup_removeItem_rejects = False\<rparr>"

definition gate_io_ok :: gate_io where
  "gate_io_ok = \<lparr>first_check = no_rejects, download = download_ok, second_check = no_rejects\<rparr>"

definition initial_gate :: gate where
  "initial_gate =
     \<lparr>isModelDownloading = False, modelDownloadError = None, isModelReady = False\<rparr>"

text \<open>
  A phone that holds a model file installed under the version tag \<open>0.9.0\<close>, and one that
  holds nothing.
\<close>

definition stale_phone :: phone where
  "stale_phone =
     \<lparr>storage = \<lparr>savemymind_notes = None, whisper_model_downloaded = Some (lit ''true''),
                 whisper_model_version = Some (lit ''0.9.0'')\<rparr>,
      model_file = True\<rparr>"

definition empty_phone :: phone where
  "empty_phone = \<lparr>storage = empty_storage, model_file = False\<rparr>"

definition android :: device where
  "android = \<lparr>Platform_OS = Android, FileSystem = True,
              documentDirectory = lit ''file:///data/''\<rparr>"

definition android_without_FileSystem :: device where
  "android_without_FileSystem =
     \<lparr>Platform_OS = Android, FileSystem = False, documentDirectory = []\<rparr>"

definition web_browser :: device where
  "web_browser = \<lparr>Platform_OS = Web, FileSystem = False, documentDirectory = []\<rparr>"

section \<open>Properties of title generation\<close>

lemma split_nl_nonempty: "split_nl s \<noteq> []"
  by (induction s) (auto split: list.splits)

lemma trim_Nil: "trim [] = []"
  by (simp add: trim_def)

lemma trim_ws_Cons: "is_ws w \<Longrightarrow> trim (w # l) = trim l"
  by (simp add: trim_def)

lemma trim_ws_snoc:
  assumes "is_ws w" shows "trim (l @ [w]) = trim l"
proof (cases "\<forall>c\<in>set l. is_ws c")
  case True
  then have "dropWhile is_ws (l @ [w]) = []" and "dropWhile is_ws l = []"
    using assms by simp_all
  then show ?thesis by (simp only: trim_def)
next
  case False
  then obtain c where "c \<in> set l" and "\<not> is_ws c" by blast
  then have "dropWhile is_ws (l @ [w]) = dropWhile is_ws l @ [w]"
    by (rule dropWhile_append1)
  then show ?thesis using assms by (simp add: trim_def)
qed

lemma title_line_Nil: "title_line [] = None"
  by (simp add: title_line_def)

lemma title_line_Cons:
  "title_line (l # ls) = (if trim l \<noteq> [] then Some (trim l) else title_line ls)"
  by (simp add: title_line_def)

lemma title_line_append:
  "title_line (xs @ ys) = (case title_line xs of Some t \<Rightarrow> Some t | None \<Rightarrow> title_line ys)"
  by (induction xs) (auto simp: title_line_Cons title_line_Nil)

text \<open>Appending one code unit either opens a new last line or extends the last line.\<close>

lemma split_nl_snoc:
  "split_nl (s @ [w]) =
     (if w = 10 then split_nl s @ [[]]
      else butlast (split_nl s) @ [last (split_nl s) @ [w]])"
proof (induction s)
  case Nil
  then show ?case by simp
next
  case (Cons c s)
  obtain h t where ht: "split_nl s = h # t"
    using split_nl_nonempty by (cases "split_nl s") auto
  show ?case using Cons ht by (cases t) auto
qed

text \<open>White space in front of or behind the content does not change the title line.\<close>

lemma title_line_ws_Cons:
  assumes "is_ws w" shows "title_line (split_nl (w # s)) = title_line (split_nl s)"
proof -
  obtain h t where ht: "split_nl s = h # t"
    using split_nl_nonempty by (cases "split_nl s") auto
  show ?thesis using assms ht by (simp add: title_line_Cons trim_ws_Cons trim_Nil)
qed

lemma title_line_ws_snoc:
  assumes "is_ws w" shows "title_line (split_nl (s @ [w])) = title_line (split_nl s)"
proof -
  have sp: "split_nl s = butlast (split_nl s) @ [last (split_nl s)]"
    using split_nl_nonempty by simp
  have "title_line (butlast (split_nl s) @ [last (split_nl s) @ [w]])
      = title_line (butlast (split_nl s) @ [last (split_nl s)])"
    using assms
    by (simp add: title_line_append title_line_Cons title_line_Nil trim_ws_snoc
        split: option.splits)
  then show ?thesis
    using sp
    by (simp add: split_nl_snoc title_line_append title_line_Cons title_line_Nil trim_Nil
        split: option.splits)
qed

lemma title_line_dropWhile:
  "title_line (split_nl (dropWhile is_ws s)) = title_line (split_nl s)"
  by (induction s) (simp_all add: title_line_ws_Cons del: split_nl.simps)

lemma title_line_ws_append:
  "\<forall>c\<in>set z. is_ws c \<Longrightarrow> title_line (split_nl (s @ z)) = title_line (split_nl s)"
proof (induction z rule: rev_induct)
  case Nil
  then show ?case by simp
next
  case (snoc w z)
  have "title_line (split_nl ((s @ z) @ [w])) = title_line (split_nl (s @ z))"
    using snoc.prems by (intro title_line_ws_snoc) simp
  then show ?case using snoc by simp
qed

lemma title_line_trim: "title_line (split_nl (trim s)) = title_line (split_nl s)"
proof -
  let ?u = "dropWhile is_ws s"
  have "rev ?u = takeWhile is_ws (rev ?u) @ dropWhile is_ws (rev ?u)" by simp
  then have "?u = trim s @ rev (takeWhile is_ws (rev ?u))"
    unfolding trim_def by (metis rev_append rev_rev_ident)
  moreover have "\<forall>c\<in>set (rev (takeWhile is_ws (rev ?u))). is_ws c"
    by (auto dest: set_takeWhileD)
  ultimately have "title_line (split_nl ?u) = title_line (split_nl (trim s))"
    using title_line_ws_append by metis
  then show ?thesis by (simp add: title_line_dropWhile)
qed

lemma first_nonempty_line_title_line:
  "first_nonempty_line ls = map_option limit_title (title_line ls)"
  by (induction ls) (auto simp: Let_def title_line_Cons title_line_Nil)

lemma generateTitleFromContent_title_line:
  assumes "trim s \<noteq> []"
  shows "generateTitleFromContent s =
      (case title_line (split_nl (trim s)) of
         None \<Rightarrow> lit ''New note'' | Some t \<Rightarrow> limit_title t)"
proof -
  have ne: "s \<noteq> []" using assms by (auto simp: trim_Nil)
  obtain l ls where sp: "split_nl (trim s) = l # ls"
    using split_nl_nonempty by (cases "split_nl (trim s)") auto
  show ?thesis
    using assms ne sp
    by (auto simp: generateTitleFromContent_def Let_def first_nonempty_line_title_line
        title_line_Cons split: option.splits)
qed

text \<open>
  C3. For every content string the generated title is the fixed default \<open>New note\<close>
  when the trimmed content is empty; otherwise it is the first line of the content that
  is non-empty after trimming, in its trimmed form, cut to 50 code units with the
  marker \<open>...\<close> appended when it is longer than 50; and the default when there is no such
  line.
\<close>

theorem generateTitleFromContent_spec:
  "generateTitleFromContent s = spec_title s"
proof (cases "trim s = []")
  case True
  then show ?thesis by (simp add: generateTitleFromContent_def spec_title_def)
next
  case False
  have "spec_title s =
      (case title_line (split_nl s) of
         None \<Rightarrow> lit ''New note'' | Some t \<Rightarrow> limit_title t)"
    using False
    by (auto simp: spec_title_def title_line_def limit_title_def split: option.splits)
  then show ?thesis
    using False by (simp add: generateTitleFromContent_title_line title_line_trim)
qed

text \<open>
  The example of the specification: two blanks, a line feed, two blanks and a first
  line of 73 code units, then a second line. The title is the first 50 code units of
  that line and the marker.
\<close>

lemma generateTitleFromContent_example:
  "generateTitleFromContent
     (lit ''  '' @ [10] @
      lit ''  hello world this is a very long first line exceeding fifty characters total'' @
      [10] @ lit ''second line'')
   = lit ''hello world this is a very long first line exceedi...''"
  by (simp add: generateTitleFromContent_def lit_def trim_def is_ws_def limit_title_def)

lemma title_line_nonempty: "title_line ls = Some t \<Longrightarrow> t \<noteq> []"
  by (induction ls) (auto simp: title_line_Nil title_line_Cons split: if_splits)

lemma limit_title_nonempty: "t \<noteq> [] \<Longrightarrow> limit_title t \<noteq> []"
  by (cases t) (auto simp: limit_title_def)

lemma generateTitleFromContent_nonempty: "generateTitleFromContent s \<noteq> []"
proof (cases "trim s = []")
  case True
  then show ?thesis by (simp add: generateTitleFromContent_def lit_def)
next
  case False
  show ?thesis
  proof (cases "title_line (split_nl (trim s))")
    case None
    then show ?thesis
      using False by (simp add: generateTitleFromContent_title_line lit_def)
  next
    case (Some t)
    then show ?thesis
      using False title_line_nonempty[OF Some] limit_title_nonempty
      by (simp add: generateTitleFromContent_title_line)
  qed
qed

section \<open>Properties of the date categories\<close>

lemma ceil_div_mult: "0 < b \<Longrightarrow> ceil_div (k * b) b = k"
proof -
  assume "0 < b"
  then have "(- k * b) div b = - k" by (simp del: mult_minus_left)
  then show ?thesis by (simp add: ceil_div_def)
qed

text \<open>
  Where the offset of the zone is the same at both local midnights, the \<open>diffDays\<close> of
  the code is the difference in calendar days, and the category follows the table.
\<close>

lemma getDateCategory_calendar:
  assumes same: "same_offset tz now t"
    and today: "date_only tz (Time now) \<noteq> Invalid_Date"
    and noteDateOnly: "date_only tz (Time t) \<noteq> Invalid_Date"
  shows "getDateCategory tz now (Time t) = category_of_diffDays (calendar_diffDays tz now t)"
proof -
  let ?a = "Day (LocalTime tz now) * msPerDay" and ?b = "Day (LocalTime tz t) * msPerDay"
  have a: "TimeClip (UTC tz ?a) = Time (UTC tz ?a)"
    using today by (simp add: TimeClip_def split: if_splits)
  have b: "TimeClip (UTC tz ?b) = Time (UTC tz ?b)"
    using noteDateOnly by (simp add: TimeClip_def split: if_splits)
  have "UTC tz ?a - UTC tz ?b = calendar_diffDays tz now t * msPerDay"
    using same by (simp add: UTC_def same_offset_def calendar_diffDays_def algebra_simps)
  moreover have "0 < msPerDay" by (simp add: msPerDay_def)
  ultimately have "ceil_div (UTC tz ?a - UTC tz ?b) msPerDay = calendar_diffDays tz now t"
    by (simp only: ceil_div_mult)
  then have "ceil_div (UTC tz ?a - UTC tz ?b) 86400000 = calendar_diffDays tz now t"
    by (simp add: msPerDay_def)
  then show ?thesis
    by (simp add: getDateCategory_def a b Let_def category_of_diffDays_def)
qed

lemma same_offset_fixed_zone: "same_offset (fixed_zone off) now t"
  by (simp add: same_offset_def fixed_zone_def)

lemma getDateCategory_Invalid_Date: "getDateCategory tz now Invalid_Date = Older"
  by (simp add: getDateCategory_def split: date.splits)

lemmas date_eval =
  getDateCategory_def us_eastern_def calendar_diffDays_def Day_def LocalTime_def UTC_def
  msPerDay_def TimeClip_def ceil_div_def same_offset_def

text \<open>
  In UTC, at 00:01 on 3 November 2025, a note updated at 23:59 the day before is in
  Yesterday.
\<close>

lemma getDateCategory_utc_example:
  "getDateCategory (fixed_zone 0) 1762128060000 (Time 1762127940000) = Yesterday"
  by (simp add: date_eval fixed_zone_def)

text \<open>
  C4. The claim: the category is determined by the difference in whole calendar days
  between today's local date and the local date of the note (0 Today, 1 Yesterday, ...),
  and a note updated at 23:59 yesterday is in Yesterday at 00:01 today. The code divides
  the milliseconds between the two local midnights by 24 hours and rounds up, which is
  not the calendar difference across a change of the clocks. In US Eastern time, at
  00:01 on 3 November 2025 (05:01Z), a note updated at 23:59 on 2 November (04:59Z on
  3 November), the day the clocks went back: the local midnights are 25 hours apart, the
  calendar difference is 1, \<open>diffDays\<close> is 2 and the category is This week.
\<close>

theorem getDateCategory_clocks_back:
  "calendar_diffDays us_eastern 1762146060000 1762145940000 = 1 \<and>
   date_only us_eastern (Time 1762146060000) = Time 1762146000000 \<and>
   date_only us_eastern (Time 1762145940000) = Time 1762056000000 \<and>
   getDateCategory us_eastern 1762146060000 (Time 1762145940000) = This_week"
  by (simp add: date_eval)

text \<open>
  C10. The claim: a note whose local calendar date is strictly later than today's is
  in This week, never in Today, Yesterday, This month or Older, because its negative day
  difference falls through to the \<open>diffDays <= 7\<close> branch. The \<open>diffDays\<close> of the code
  is not that day difference across a change of the clocks (the defect of C4). In US
  Eastern time at 00:30 on 8 March 2026 (05:30Z), the day the clocks go forward, a note
  dated 00:30 on 9 March (04:30Z) is one calendar day in the future; the local
  midnights are 23 hours apart, the quotient -23/24 rounds up to -0, which \<open>=== 0\<close>, and
  the category is Today.
\<close>

theorem getDateCategory_clocks_forward:
  "calendar_diffDays us_eastern 1772947800000 1773030600000 = - 1 \<and>
   date_only us_eastern (Time 1772947800000) = Time 1772946000000 \<and>
   date_only us_eastern (Time 1773030600000) = Time 1773028800000 \<and>
   getDateCategory us_eastern 1772947800000 (Time 1773030600000) = Today"
  by (simp add: date_eval)

text \<open>
  What the code does for a note in the future, in every zone: This week when the local
  midnight of the note is at least 24 hours after today's local midnight, Today when it
  is later by less. Only a note dated tomorrow across a forward change of the clocks is
  in the second case.
\<close>

lemma ceil_div_le_minus_one:
  assumes "a \<le> - b" and "0 < b" shows "ceil_div a b \<le> - 1"
proof -
  have "b div b \<le> (- a) div b" using assms by (intro zdiv_mono1) simp_all
  then show ?thesis using assms by (simp add: ceil_div_def)
qed

lemma ceil_div_zero:
  assumes "- b < a" and "a \<le> 0" and "0 < b" shows "ceil_div a b = 0"
  using assms by (simp add: ceil_div_def div_pos_pos_trivial)

lemma getDateCategory_later_midnight:
  assumes "date_only tz (Time now) = Time today"
    and "date_only tz (Time t) = Time noteDateOnly"
    and "msPerDay \<le> noteDateOnly - today"
  shows "getDateCategory tz now (Time t) = This_week"
proof -
  have "ceil_div (today - noteDateOnly) 86400000 \<le> - 1"
    using assms(3) by (intro ceil_div_le_minus_one) (simp_all add: msPerDay_def)
  then show ?thesis
    using assms(1,2) by (simp add: getDateCategory_def Let_def)
qed

lemma getDateCategory_nearer_midnight:
  assumes "date_only tz (Time now) = Time today"
    and "date_only tz (Time t) = Time noteDateOnly"
    and "today \<le> noteDateOnly" and "noteDateOnly - today < msPerDay"
  shows "getDateCategory tz now (Time t) = Today"
proof -
  have "ceil_div (today - noteDateOnly) 86400000 = 0"
    using assms(3,4) by (intro ceil_div_zero) (simp_all add: msPerDay_def)
  then show ?thesis
    using assms(1,2) by (simp add: getDateCategory_def Let_def)
qed

section \<open>Properties of identifiers and of created notes\<close>

lemma digits_value_digits: "digits_value (digits n) = n"
proof (induction n rule: digits.induct)
  case (1 n)
  show ?case
  proof (cases "n < 10")
    case True
    then show ?thesis by (simp add: digits.simps [of n] digits_value_def)
  next
    case False
    with 1 have "digits_value (digits (n div 10)) = n div 10" by simp
    then show ?thesis
      using False by (simp add: digits.simps [of n] digits_value_def)
  qed
qed

lemma digits_inj: "digits a = digits b \<Longrightarrow> a = b"
  by (metis digits_value_digits)

lemma digits_ge_48: "c \<in> set (digits n) \<Longrightarrow> 48 \<le> c"
proof (induction n rule: digits.induct)
  case (1 n)
  then show ?case
    by (cases "n < 10") (auto simp: digits.simps [of n])
qed

lemma digits_nonempty: "digits n \<noteq> []"
  by (cases "n < 10") (simp_all add: digits.simps [of n])

lemma toString_int_nonempty: "toString_int i \<noteq> []"
  by (simp add: toString_int_def digits_nonempty)

lemma toString_int_inj:
  assumes "toString_int a = toString_int b" shows "a = b"
proof -
  have neg: "45 # digits m \<noteq> digits n" for m n
  proof
    assume "45 # digits m = digits n"
    then have "45 \<in> set (digits n)" by (metis list.set_intros(1))
    then show False using digits_ge_48 by fastforce
  qed
  show ?thesis
  proof (cases "a < 0"; cases "b < 0")
    assume "a < 0" "b < 0"
    then show ?thesis using assms digits_inj [of "nat (- a)" "nat (- b)"]
      by (simp add: toString_int_def)
  next
    assume "a < 0" "\<not> b < 0"
    then show ?thesis using assms neg by (simp add: toString_int_def)
  next
    assume "\<not> a < 0" "b < 0"
    then show ?thesis using assms neg [of "nat (- b)" "nat a"] by (simp add: toString_int_def)
  next
    assume "\<not> a < 0" "\<not> b < 0"
    then show ?thesis using assms digits_inj [of "nat a" "nat b"]
      by (simp add: toString_int_def)
  qed
qed

lemma generateId_nonempty: "generateId e \<noteq> []"
  by (simp add: generateId_def toString_int_nonempty)

lemma generateId_eq_iff:
  assumes "length (toString_int (Date_now e')) = length (toString_int (Date_now e))"
  shows "generateId e' = generateId e \<longleftrightarrow>
    Date_now e' = Date_now e \<and> substr (Math_random_36 e') 2 9 = substr (Math_random_36 e) 2 9"
  using assms toString_int_inj by (auto simp: generateId_def)

lemma note_id_createNote: "note_id (createNote e inp) = generateId e"
  by (simp add: createNote_def Let_def)

lemma parse_int_toString_int: "parse_int (toString_int t) = t"
proof (cases "t < 0")
  case True
  then show ?thesis by (simp add: parse_int_def toString_int_def digits_value_digits)
next
  case False
  obtain c cs where d: "digits (nat t) = c # cs"
    using digits_nonempty by (cases "digits (nat t)") auto
  then have "c \<in> set (digits (nat t))" by simp
  then have "c \<noteq> 45" using digits_ge_48 by fastforce
  moreover have "digits_value (c # cs) = nat t"
    using digits_value_digits [of "nat t"] d by simp
  ultimately show ?thesis using False d by (simp add: parse_int_def toString_int_def)
qed

lemma iso_roundtrip_sample_runtime: "iso_roundtrip sample_runtime"
  by (simp add: iso_roundtrip_def sample_runtime_def parse_int_toString_int TimeClip_def)

lemma createNote_env1_input1: "createNote env1 input1 = note1"
  by (simp add: createNote_def env1_def input1_def note1_def generateId_def toString_int_def
      digits.simps substr_def or_else_def generateTitleFromContent_def trim_def is_ws_def
      limit_title_def lit_def Let_def)

lemma title_createNote: "title (createNote e inp) \<noteq> []"
  by (simp add: createNote_def Let_def or_else_def generateTitleFromContent_nonempty)

lemma content_createNote: "content (createNote e inp) = content_in inp"
  by (simp add: createNote_def Let_def or_else_def)

section \<open>Properties of the note repository\<close>

lemma saveNotes_ok:
  "setItem_rejects io = None \<Longrightarrow>
   saveNotes rt io (st, store) ns =
     (st\<lparr>notes := ns, error := None\<rparr>, store\<lparr>savemymind_notes := Some (JSON_stringify rt ns)\<rparr>)"
  by (simp add: saveNotes_def saveNotesToStorage_def)

lemma saveNotes_rejects:
  "setItem_rejects io = Some err \<Longrightarrow>
   saveNotes rt io (st, store) ns = (st\<lparr>error := Some (lit ''Failed to save notes'')\<rparr>, store)"
  by (simp add: saveNotes_def saveNotesToStorage_def)

lemma findIndex_None: "findIndex P xs = None \<longleftrightarrow> (\<forall>x\<in>set xs. \<not> P x)"
  by (induction xs) auto

lemma findIndex_Some: "findIndex P xs = Some i \<Longrightarrow> i < length xs \<and> P (xs ! i)"
  by (induction xs arbitrary: i) (auto split: if_splits)

lemma note_id_updateNote: "note_id (updateNote e n u) = note_id n"
  by (simp add: updateNote_def Let_def)

lemma addNote_ok:
  assumes "setItem_rejects io = None"
  shows "addNote rt e io (st, store) (Some inp) =
     (Inr (createNote e inp),
      st\<lparr>notes := createNote e inp # notes st, error := None\<rparr>,
      store\<lparr>savemymind_notes := Some (JSON_stringify rt (createNote e inp # notes st))\<rparr>)"
  using assms
  by (simp add: addNote_def Let_def note_id_createNote generateId_nonempty saveNotes_ok)

text \<open>
  C1. The claim: when the write-through fails, create (and update) fails with a
  PersistError and the collection in memory is as before the call. The collection is
  indeed unchanged and the storage too, but the call does not fail: \<open>saveNotes\<close>
  catches the rejection of \<open>setItem\<close>, records \<open>Failed to save notes\<close> in the state and
  resolves, so \<open>addNote\<close> returns the new note, which is in no collection.
\<close>

theorem addNote_write_fails:
  "addNote rt e (io\<lparr>setItem_rejects := Some err\<rparr>) (st, store) (Some inp) =
     (Inr (createNote e inp), st\<lparr>error := Some (lit ''Failed to save notes'')\<rparr>, store)"
  by (simp add: addNote_def Let_def note_id_createNote generateId_nonempty saveNotes_rejects)

text \<open>The same holds for an update of a note that exists.\<close>

lemma updateNoteById_write_fails:
  assumes "findIndex (\<lambda>note. note_id note = noteId) (notes st) = Some i" and "noteId \<noteq> []"
  shows "updateNoteById rt e (io\<lparr>setItem_rejects := Some err\<rparr>) (st, store) noteId updates =
     (Inr (updateNote e (notes st ! i) updates),
      st\<lparr>error := Some (lit ''Failed to save notes'')\<rparr>, store)"
  using assms findIndex_Some [OF assms(1)]
  by (simp add: updateNoteById_def Let_def note_id_updateNote saveNotes_rejects)

lemma addNote_rejected_write_example:
  "addNote sample_runtime env2 (io_ok\<lparr>setItem_rejects := Some Thrown_value\<rparr>)
     (state1, empty_storage) (Some input2) =
     (Inr (createNote env2 input2),
      state1\<lparr>error := Some (lit ''Failed to save notes'')\<rparr>, empty_storage) \<and>
   getNoteById (state1\<lparr>error := Some (lit ''Failed to save notes'')\<rparr>)
     (note_id (createNote env2 input2)) = None"
  by (simp add: addNote_def Let_def note_id_createNote generateId_nonempty saveNotes_rejects
      getNoteById_def state1_def note1_def generateId_def env2_def toString_int_def
      digits.simps substr_def lit_def)

text \<open>
  C2. The claim: when the read fails or the stored text does not decode, the load gives
  the empty list, signals a LoadError and leaves the stored text alone. The list is
  empty and the storage is untouched, but no error is signalled: \<open>loadNotesFromStorage\<close>
  catches every error and returns the empty array, so the \<open>catch\<close> of \<open>loadNotes\<close>, which
  would set \<open>Failed to load notes\<close>, is never entered and the error of the state is
  \<open>null\<close>. First a read that rejects, then a stored text that is no JSON.
\<close>

theorem loadNotes_failure_not_signalled:
  "loadNotes rt (io\<lparr>getItem_rejects := Some err\<rparr>) store st =
     (st\<lparr>notes := [], loading := False, error := None\<rparr>, store) \<and>
   loadNotes rt (io\<lparr>getItem_rejects := None\<rparr>)
       (store\<lparr>savemymind_notes := Some Malformed_text\<rparr>) st =
     (st\<lparr>notes := [], loading := False, error := None\<rparr>,
      store\<lparr>savemymind_notes := Some Malformed_text\<rparr>)"
  by (simp add: loadNotes_def loadNotesFromStorage_def parse_notes_def Let_def)

text \<open>No load signals an error, and every load leaves the storage as it was.\<close>

lemma loadNotesFromStorage_never_rejects: "\<exists>ns. loadNotesFromStorage rt io store = Inr ns"
  by (auto simp: loadNotesFromStorage_def split: option.splits sum.splits)

lemma loadNotes_error: "error (fst (loadNotes rt io store st)) = None \<and> snd (loadNotes rt io store st) = store"
  using loadNotesFromStorage_never_rejects [of rt io store]
  by (auto simp: loadNotes_def Let_def)

text \<open>
  A stored array whose element is no note does not fail the load either: the number 1
  comes back as an object with two invalid dates.
\<close>

lemma loadNotesFromStorage_junk_record:
  "loadNotesFromStorage rt io_ok (store\<lparr>savemymind_notes := Some (JSON_text (JArr [JNum 1]))\<rparr>) =
     Inr [[(lit ''createdAt'', D Invalid_Date), (lit ''updatedAt'', D Invalid_Date)]]"
  by (simp add: loadNotesFromStorage_def parse_notes_def revive_note_def io_ok_def lit_def)

text \<open>
  What holds of a create whose write succeeds, from any state: \<open>getNoteById\<close> finds the
  returned note under the returned id, its content is that of the input, its title is
  not empty and \<open>createdAt\<close> equals \<open>updatedAt\<close>.
\<close>

lemma addNote_then_getNoteById:
  assumes "setItem_rejects io = None"
  shows "fst (addNote rt e io (st, store) (Some inp)) = Inr (createNote e inp) \<and>
     getNoteById (fst (snd (addNote rt e io (st, store) (Some inp))))
       (note_id (createNote e inp)) = Some (createNote e inp) \<and>
     content (createNote e inp) = content_in inp \<and>
     title (createNote e inp) \<noteq> [] \<and>
     createdAt (createNote e inp) = updatedAt (createNote e inp)"
proof -
  have "createdAt (createNote e inp) = updatedAt (createNote e inp)"
    by (simp add: createNote_def Let_def)
  then show ?thesis
    by (simp add: addNote_ok [OF assms] getNoteById_def title_createNote content_createNote)
qed

text \<open>
  C5. The claim: the note that a create returns has the content of the input, a
  non-empty title, \<open>createdAt\<close> equal to \<open>updatedAt\<close>, and an id that differs from the id
  of every note created before. The id is the decimal clock reading followed by at
  most nine base-36 digits of a random number, and nothing compares it with the ids in
  use, against the comment \<open>Generate unique ID for notes\<close> of \<open>generateId\<close>. A first create
  stores \<open>note1\<close>; the hook renders again; a second create that reads the same clock
  value and draws the same random number returns a different note with the id of
  \<open>note1\<close>, and the collection then holds two notes with one id.
\<close>

theorem addNote_same_id:
  "addNote sample_runtime env1 io_ok (empty_state, empty_storage) (Some input1) =
     (Inr note1,
      \<lparr>notes = [note1], loading = False, error = None\<rparr>,
      empty_storage\<lparr>savemymind_notes := Some (JSON_stringify sample_runtime [note1])\<rparr>) \<and>
   fst (addNote sample_runtime env1 io_ok
         (\<lparr>notes = [note1], loading = False, error = None\<rparr>,
          empty_storage\<lparr>savemymind_notes := Some (JSON_stringify sample_runtime [note1])\<rparr>)
         (Some input2)) = Inr (createNote env1 input2) \<and>
   notes (fst (snd (addNote sample_runtime env1 io_ok
         (\<lparr>notes = [note1], loading = False, error = None\<rparr>,
          empty_storage\<lparr>savemymind_notes := Some (JSON_stringify sample_runtime [note1])\<rparr>)
         (Some input2)))) = [createNote env1 input2, note1] \<and>
   note_id (createNote env1 input2) = lit ''17621460600014fzyo82mv'' \<and>
   note_id note1 = lit ''17621460600014fzyo82mv'' \<and>
   createNote env1 input2 \<noteq> note1"
proof -
  have ok: "setItem_rejects io_ok = None" by (simp add: io_ok_def)
  have "title (createNote env1 input2) = lit ''Second''"
    by (simp add: createNote_def input2_def or_else_def trim_def is_ws_def lit_def Let_def)
  moreover have "title note1 = lit ''Buy milk''" by (simp add: note1_def)
  moreover have "lit ''Second'' \<noteq> lit ''Buy milk''" by (simp add: lit_def)
  ultimately have diff: "createNote env1 input2 \<noteq> note1" by metis
  have id1: "note_id note1 = lit ''17621460600014fzyo82mv''" by (simp add: note1_def)
  have id2: "note_id (createNote env1 input2) = lit ''17621460600014fzyo82mv''"
    using note_id_createNote [of env1 input1] createNote_env1_input1 id1
    by (simp add: note_id_createNote)
  show ?thesis
    using diff id1 id2
    by (simp add: addNote_ok [OF ok] createNote_env1_input1 empty_state_def)
qed

text \<open>
  C7, as stated, fails for the empty id: it is absent from the collection, and the
  update fails with \<open>Invalid note ID\<close>, the first check of \<open>updateNoteById\<close>, not with
  \<open>Note not found\<close>.
\<close>

theorem updateNoteById_empty_id_counterexample:
  "[] \<notin> note_id ` set (notes state1) \<and>
   fst (updateNoteById sample_runtime env2 io_ok (state1, empty_storage) [] updates1) =
     Inl (Error (lit ''Invalid note ID'')) \<and>
   lit ''Invalid note ID'' \<noteq> lit ''Note not found''"
  by (simp add: updateNoteById_def state1_def note1_def lit_def Let_def)

text \<open>
  C7, amended. For every collection and every id absent from it, the update fails:
  with \<open>Note not found\<close> when the id is not empty, with \<open>Invalid note ID\<close> when it is. In
  both cases the notes of the state are unchanged (only its error message is set) and
  the storage is unchanged: nothing is persisted.
\<close>

theorem updateNoteById_absent:
  assumes "noteId \<notin> note_id ` set (notes st)"
  shows "updateNoteById rt e io (st, store) noteId updates =
     (let err = Error (if noteId = [] then lit ''Invalid note ID'' else lit ''Note not found'')
      in (Inl err,
          st\<lparr>error := Some (lit ''Failed to update note: '' @ message_of err)\<rparr>, store))"
proof -
  have "findIndex (\<lambda>note. note_id note = noteId) (notes st) = None"
    using assms by (auto simp: findIndex_None)
  then show ?thesis by (simp add: updateNoteById_def Let_def)
qed

theorem updateNoteById_absent_witness:
  "lit ''17'' \<notin> note_id ` set (notes state1) \<and>
   updateNoteById sample_runtime env2 io_ok (state1, empty_storage) (lit ''17'') updates1 =
     (Inl (Error (lit ''Note not found'')),
      state1\<lparr>error := Some (lit ''Failed to update note: Note not found'')\<rparr>,
      empty_storage)"
proof -
  have h: "lit ''17'' \<notin> note_id ` set (notes state1)"
    by (simp add: state1_def note1_def lit_def)
  have ne: "lit ''17'' \<noteq> []" by (simp add: lit_def)
  show ?thesis
    using h ne
      updateNoteById_absent [OF h, of sample_runtime env2 io_ok empty_storage updates1]
    by (simp add: Let_def lit_def)
qed

section \<open>Properties of the codec\<close>

lemma lit_keys:
  "lit ''createdAt'' \<noteq> lit ''id''" "lit ''createdAt'' \<noteq> lit ''title''"
  "lit ''createdAt'' \<noteq> lit ''content''" "lit ''updatedAt'' \<noteq> lit ''id''"
  "lit ''updatedAt'' \<noteq> lit ''title''" "lit ''updatedAt'' \<noteq> lit ''content''"
  "lit ''updatedAt'' \<noteq> lit ''createdAt''"
  by (simp_all add: lit_def)

lemma new_Date_of_date_toJSON:
  assumes "iso_roundtrip rt" and "valid_date d"
  shows "new_Date_of rt (Some (date_toJSON rt d)) = d"
  using assms by (cases d) (auto simp: iso_roundtrip_def)

lemma revive_note_Note_toJSON:
  assumes "iso_roundtrip rt" and "valid_date (createdAt n)" and "valid_date (updatedAt n)"
  shows "revive_note rt (Note_toJSON rt n) = Inr (obj_of_Note n)"
  using assms lit_keys lit_keys [symmetric]
  by (simp add: revive_note_def Note_toJSON_def obj_of_Note_def new_Date_of_date_toJSON)

lemma map_throwing_revive_note:
  assumes "iso_roundtrip rt"
    and "\<forall>n\<in>set ns. valid_date (createdAt n) \<and> valid_date (updatedAt n)"
  shows "map_throwing (revive_note rt) (map (Note_toJSON rt) ns) = Inr (map obj_of_Note ns)"
  using assms(2) by (induction ns) (simp_all add: revive_note_Note_toJSON [OF assms(1)])

lemma parse_notes_JSON_stringify:
  assumes "iso_roundtrip rt"
    and "\<forall>n\<in>set ns. valid_date (createdAt n) \<and> valid_date (updatedAt n)"
  shows "parse_notes rt (Some (JSON_stringify rt ns)) = Inr (map obj_of_Note ns)"
  using map_throwing_revive_note [OF assms] by (simp add: parse_notes_def JSON_stringify_def)

text \<open>Two notes with the same object are the same note.\<close>

lemma obj_of_Note_inj: "obj_of_Note a = obj_of_Note b \<Longrightarrow> a = b"
  by (cases a, cases b) (simp add: obj_of_Note_def)

text \<open>
  An invalid date is outside the claim (a timestamp is an instant): \<open>toJSON\<close> writes it as
  \<open>null\<close>, and \<open>new Date(null)\<close> is the epoch.
\<close>

lemma invalid_date_not_restored:
  "revive_note rt (Note_toJSON rt (n\<lparr>createdAt := Invalid_Date\<rparr>)) \<noteq>
     Inr (obj_of_Note (n\<lparr>createdAt := Invalid_Date\<rparr>))"
  using lit_keys lit_keys [symmetric]
  by (simp add: revive_note_def Note_toJSON_def obj_of_Note_def)

text \<open>
  C6. For every collection of notes, the empty one included, decoding the encoded
  collection gives the collection back: what \<open>loadNotesFromStorage\<close> returns after
  \<open>saveNotesToStorage\<close> has written the notes is the list of those notes, with the same
  ids, titles, contents and both timestamps. The timestamps are instants (valid dates),
  the runtime reads back the ISO string it writes, as ECMA-262 requires, and the write
  and the read are answered.
\<close>

theorem load_after_save:
  assumes "iso_roundtrip rt"
    and "\<forall>n\<in>set ns. valid_date (createdAt n) \<and> valid_date (updatedAt n)"
    and "setItem_rejects io = None" and "getItem_rejects io' = None"
  shows "parse_notes rt (Some (JSON_stringify rt ns)) = Inr (map obj_of_Note ns) \<and>
     fst (saveNotesToStorage rt io store ns) = Inr () \<and>
     loadNotesFromStorage rt io' (snd (saveNotesToStorage rt io store ns)) =
       Inr (map obj_of_Note ns)"
  using assms(3,4) parse_notes_JSON_stringify [OF assms(1,2)]
  by (simp add: saveNotesToStorage_def loadNotesFromStorage_def)

theorem load_after_save_witness:
  "iso_roundtrip sample_runtime \<and>
   valid_date (createdAt note1) \<and> valid_date (updatedAt note1) \<and>
   setItem_rejects io_ok = None \<and> getItem_rejects io_ok = None \<and>
   parse_notes sample_runtime (Some (JSON_stringify sample_runtime [note1])) =
     Inr [obj_of_Note note1] \<and>
   fst (saveNotesToStorage sample_runtime io_ok empty_storage [note1]) = Inr () \<and>
   loadNotesFromStorage sample_runtime io_ok
     (snd (saveNotesToStorage sample_runtime io_ok empty_storage [note1])) =
     Inr [obj_of_Note note1]"
proof -
  have h1: "iso_roundtrip sample_runtime" by (rule iso_roundtrip_sample_runtime)
  have h2: "\<forall>n\<in>set [note1]. valid_date (createdAt n) \<and> valid_date (updatedAt n)"
    by (simp add: note1_def)
  have h3: "setItem_rejects io_ok = None" and h4: "getItem_rejects io_ok = None"
    by (simp_all add: io_ok_def)
  show ?thesis
    using h1 h2 h3 h4 load_after_save [OF h1 h2 h3 h4, of empty_storage] by simp
qed

lemma empty_collection_roundtrip:
  "loadNotesFromStorage rt io_ok (snd (saveNotesToStorage rt io_ok store [])) = Inr []"
  by (simp add: saveNotesToStorage_def loadNotesFromStorage_def parse_notes_def
      JSON_stringify_def io_ok_def)

section \<open>Properties of the provisioning gate\<close>

text \<open>
  C8. Whenever the persisted version tag is not the current version, the check does not
  report the model available, whatever else happens. When the check comes to compare the
  tag (the platform has a file system, the file information is read and the file exists,
  the tag is read) and its deletions are carried out, it deletes the model file and
  removes the installed flag and the version tag before it reports not available.
\<close>

theorem isModelAvailable_version_mismatch:
  assumes "whisper_model_version (storage ph) \<noteq> Some CURRENT_MODEL_VERSION"
  shows "\<not> fst (isModelAvailable dev cio ph) \<and>
     (Platform_OS dev \<noteq> Web \<and> FileSystem dev \<and> model_file ph \<and>
      \<not> getInfoAsync_rejects cio \<and> \<not> getItem_version_rejects cio \<and>
      \<not> deleteAsync_rejects cio \<and> \<not> removeItem_downloaded_rejects cio \<and>
      \<not> removeItem_version_rejects cio \<longrightarrow>
      snd (isModelAvailable dev cio ph) =
        ph\<lparr>model_file := False,
           storage := (storage ph)\<lparr>whisper_model_downloaded := None,
                                   whisper_model_version := None\<rparr>\<rparr>)"
  using assms by (simp add: isModelAvailable_def Let_def)

theorem isModelAvailable_version_mismatch_witness:
  "whisper_model_version (storage stale_phone) \<noteq> Some CURRENT_MODEL_VERSION \<and>
   Platform_OS android \<noteq> Web \<and> FileSystem android \<and> model_file stale_phone \<and>
   \<not> getInfoAsync_rejects no_rejects \<and> \<not> getItem_version_rejects no_rejects \<and>
   \<not> deleteAsync_rejects no_rejects \<and> \<not> removeItem_downloaded_rejects no_rejects \<and>
   \<not> removeItem_version_rejects no_rejects \<and>
   \<not> fst (isModelAvailable android no_rejects stale_phone) \<and>
   snd (isModelAvailable android no_rejects stale_phone) = empty_phone"
proof -
  have h: "whisper_model_version (storage stale_phone) \<noteq> Some CURRENT_MODEL_VERSION"
    by (simp add: stale_phone_def CURRENT_MODEL_VERSION_def lit_def)
  have pre: "Platform_OS android \<noteq> Web \<and> FileSystem android \<and> model_file stale_phone \<and>
      \<not> getInfoAsync_rejects no_rejects \<and> \<not> getItem_version_rejects no_rejects \<and>
      \<not> deleteAsync_rejects no_rejects \<and> \<not> removeItem_downloaded_rejects no_rejects \<and>
      \<not> removeItem_version_rejects no_rejects"
    by (simp add: android_def stale_phone_def no_rejects_def)
  have cleared: "stale_phone\<lparr>model_file := False,
      storage := (storage stale_phone)\<lparr>whisper_model_downloaded := None,
                                       whisper_model_version := None\<rparr>\<rparr> = empty_phone"
    by (simp add: stale_phone_def empty_phone_def empty_storage_def)
  show ?thesis
    using h pre cleared isModelAvailable_version_mismatch [OF h, of android no_rejects]
    by simp
qed

text \<open>
  Where no model file exists the check does not read the tag and leaves both keys; a
  deletion that is refused ends the check with everything in place.
\<close>

lemma isModelAvailable_no_file:
  "\<not> model_file ph \<Longrightarrow> isModelAvailable dev cio ph = (False, ph)"
  by (simp add: isModelAvailable_def)

lemma isModelAvailable_delete_refused:
  assumes "whisper_model_version (storage ph) \<noteq> Some CURRENT_MODEL_VERSION"
    and "deleteAsync_rejects cio"
  shows "isModelAvailable dev cio ph = (False, ph)"
  using assms by (simp add: isModelAvailable_def)

text \<open>
  After such a check the gate downloads the model anew and ends ready, with the current
  version tag.
\<close>

lemma validateAndEnsureModel_stale_phone:
  "validateAndEnsureModel android gate_io_ok (initial_gate, stale_phone) =
     (\<lparr>isModelDownloading = False, modelDownloadError = None, isModelReady = True\<rparr>,
      \<lparr>storage = \<lparr>savemymind_notes = None, whisper_model_downloaded = Some (lit ''true''),
                  whisper_model_version = Some CURRENT_MODEL_VERSION\<rparr>,
       model_file = True\<rparr>)"
  by (simp add: validateAndEnsureModel_def Let_def isModelAvailable_def downloadModel_def
      android_def initial_gate_def stale_phone_def gate_io_ok_def no_rejects_def
      download_ok_def CURRENT_MODEL_VERSION_def lit_def)

text \<open>
  C9, as stated, fails on a platform that is not the web and has no file system module
  (\<open>FileSystem\<close> is \<open>null\<close>): the service treats it like the web, but the gate skips the
  model only when \<open>Platform.OS\<close> is \<open>web\<close>. There the check answers not available, the
  download throws, and the gate ends failed and not ready.
\<close>

theorem validateAndEnsureModel_no_FileSystem_counterexample:
  "Platform_OS android_without_FileSystem \<noteq> Web \<and>
   \<not> FileSystem android_without_FileSystem \<and>
   validateAndEnsureModel android_without_FileSystem gate_io_ok (initial_gate, empty_phone) =
     (\<lparr>isModelDownloading = False,
       modelDownloadError = Some (lit ''Model download not supported on web platform''),
       isModelReady = False\<rparr>, empty_phone)"
  by (simp add: validateAndEnsureModel_def Let_def isModelAvailable_def downloadModel_def
      android_without_FileSystem_def initial_gate_def)

lemma validateAndEnsureModel_no_FileSystem:
  assumes "Platform_OS dev \<noteq> Web" and "\<not> FileSystem dev"
  shows "validateAndEnsureModel dev gio (g, ph) =
     (g\<lparr>isModelDownloading := False,
        modelDownloadError := Some (lit ''Model download not supported on web platform'')\<rparr>,
      ph)"
  using assms
  by (simp add: validateAndEnsureModel_def Let_def isModelAvailable_def downloadModel_def)

text \<open>
  C9, amended. On the web platform the gate goes straight to ready: it sets
  \<open>isModelReady\<close>, asks the service nothing and changes nothing on the device, so it does
  not block the rest of the application there.
\<close>

theorem validateAndEnsureModel_web:
  assumes "Platform_OS dev = Web"
  shows "validateAndEnsureModel dev gio (g, ph) = (g\<lparr>isModelReady := True\<rparr>, ph)"
  using assms by (simp add: validateAndEnsureModel_def Let_def)

theorem validateAndEnsureModel_web_witness:
  "Platform_OS web_browser = Web \<and>
   validateAndEnsureModel web_browser gate_io_ok (initial_gate, empty_phone) =
     (\<lparr>isModelDownloading = False, modelDownloadError = None, isModelReady = True\<rparr>,
      empty_phone)"
proof -
  have h: "Platform_OS web_browser = Web" by (simp add: web_browser_def)
  show ?thesis
    using h validateAndEnsureModel_web [OF h, of gate_io_ok initial_gate empty_phone]
    by (simp add: initial_gate_def)
qed

end
